theory Spec2Isabelle
  imports Main
begin

section \<open>The GNU C/C++ makefile target of Premake (gnu\_cpp.c)\<close>

text \<open>
  The source file \<^verbatim>\<open>src/build/premake/src/Src/gnu_cpp.c\<close> writes the makefile of one
  package: \<^verbatim>\<open>gnu_cpp\<close> and the six callbacks it hands to \<^verbatim>\<open>print_list\<close>.
  The embedding below follows it statement by statement. Text is a \<^typ>\<open>string\<close>
  (a list of bytes); a call of \<^verbatim>\<open>io_print\<close> appends to the text written so far;
  a C string that may be \<^verbatim>\<open>NULL\<close> is a \<^typ>\<open>string option\<close>.

  The project accessors (\<^verbatim>\<open>prj_*\<close>), the path helpers (\<^verbatim>\<open>path_*\<close>, \<^verbatim>\<open>is_cpp\<close>,
  \<^verbatim>\<open>endsWith\<close>), \<^verbatim>\<open>matches\<close>, \<^verbatim>\<open>os_is\<close>, \<^verbatim>\<open>print_list\<close> and \<^verbatim>\<open>io_print\<close>
  are declared in headers that are not part of the source at hand. The project model
  is written as records after the data model of the specification, the path helpers
  are parameters, and the few helpers with a fixed meaning are modelled from the
  specification; each such definition says so.

  The scratch buffer \<^verbatim>\<open>g_buffer\<close> is filled by \<^verbatim>\<open>strcpy\<close> or \<^verbatim>\<open>sprintf\<close> before every
  read, so a callback is modelled by the string it returns. Strings are unbounded
  here; the fixed size of the C buffers is outside the model. Opening and closing the
  output file are outside the model too: the model is of the text handed to
  \<^verbatim>\<open>io_print\<close>.
\<close>

subsection \<open>Characters that a string literal cannot hold\<close>

abbreviation tab :: string where "tab \<equiv> [CHR 0x09]"
abbreviation dq :: string where "dq \<equiv> [CHR 0x22]"
abbreviation bsl :: string where "bsl \<equiv> [CHR 0x5C]"

subsection \<open>Project model\<close>

text \<open>
  One configuration of a package (the struct behind \<^verbatim>\<open>prj_get_cfgname\<close>,
  \<^verbatim>\<open>prj_get_bindir\<close>, \<^verbatim>\<open>prj_has_flag\<close>, \<^verbatim>\<open>prj_get_target\<close>, ...).
\<close>

record pkg_config =
  cfgname :: string
  bindir :: string
  libdir :: string
  objdir :: string
  outdir :: string
  cfgdefines :: "string list"
  incpaths :: "string list"
  flags :: "string list"
  buildoptions :: "string list"
  linkoptions :: "string list"
  libpaths :: "string list"
  target :: string

text \<open>
  A package. Its configurations are an array indexed by the configuration number; the
  number of configurations is a property of the project (\<^verbatim>\<open>prj_get_numconfigs\<close> takes
  no package), so the array is a function and the bound is kept in the project.
\<close>

record package =
  pkgname :: string
  language :: string
  kind :: string
  files :: "string list"
  links :: "string list"
  configs :: "nat \<Rightarrow> pkg_config"
  cxxtestpath :: string
  cxxtest_options :: string
  cxxtest_rootoptions :: string
  cxxtest_rootfile :: string

record project =
  numconfigs :: nat
  packages :: "package list"

text \<open>The platform context: \<^verbatim>\<open>os_is\<close>, \<^verbatim>\<open>g_cc\<close> (may be \<^verbatim>\<open>NULL\<close>), \<^verbatim>\<open>g_verbose\<close>.\<close>

record platform =
  os :: string
  g_cc :: "string option"
  g_verbose :: bool

text \<open>
  The path helpers and the extension table of \<^verbatim>\<open>is_cpp\<close>, none of which is in the
  source at hand, as parameters. \<^verbatim>\<open>path_getextension\<close> may return \<^verbatim>\<open>NULL\<close>;
  \<^verbatim>\<open>path_translate\<close> is only called with \<^verbatim>\<open>NULL\<close> as its second argument.
\<close>

record externals =
  path_getextension :: "string \<Rightarrow> string option"
  path_getbasename :: "string \<Rightarrow> string"
  path_getname :: "string \<Rightarrow> string"
  path_getdir :: "string \<Rightarrow> string"
  path_translate :: "string \<Rightarrow> string"
  path_swapextension :: "string \<Rightarrow> string \<Rightarrow> string \<Rightarrow> string"
  cpp_ext :: "string list"

text \<open>
  The state that a pass changes: the cursor of the selected configuration
  (\<^verbatim>\<open>prj_select_config\<close>) and the text written so far.
\<close>

record st =
  sel :: nat
  out :: string

definition io_print :: "string \<Rightarrow> st \<Rightarrow> st" where
  "io_print t s = s\<lparr>out := out s @ t\<rparr>"

definition prj_select_config :: "nat \<Rightarrow> st \<Rightarrow> st" where
  "prj_select_config i s = s\<lparr>sel := i\<rparr>"

subsection \<open>Helpers modelled from the specification\<close>

definition matches :: "string \<Rightarrow> string \<Rightarrow> bool" where
  \<comment> \<open>Modelled from the spec: \<^verbatim>\<open>matches\<close> (not in the source at hand) compares two
      strings for equality.\<close>
  "matches a b = (a = b)"

definition matches_null :: "string option \<Rightarrow> string \<Rightarrow> bool" where
  \<comment> \<open>Modelled from the spec: \<^verbatim>\<open>matches\<close> on a first argument that may be \<^verbatim>\<open>NULL\<close>
      (\<^verbatim>\<open>g_cc\<close>, the result of \<^verbatim>\<open>path_getextension\<close>); \<^verbatim>\<open>NULL\<close> matches no string.\<close>
  "matches_null a b = (a = Some b)"

definition os_is :: "platform \<Rightarrow> string \<Rightarrow> bool" where
  \<comment> \<open>Modelled from the spec: \<^verbatim>\<open>os_is\<close> tests the OS identity of the platform context.\<close>
  "os_is pf name = matches (os pf) name"

definition prj_is_lang :: "package \<Rightarrow> string \<Rightarrow> bool" where
  \<comment> \<open>Modelled from the spec: \<^verbatim>\<open>prj_is_lang\<close> tests the source language of the
      current package.\<close>
  "prj_is_lang pkg l = matches (language pkg) l"

definition prj_is_kind :: "package \<Rightarrow> string \<Rightarrow> bool" where
  \<comment> \<open>Modelled from the spec: \<^verbatim>\<open>prj_is_kind\<close> tests the kind of the current package;
      the data model of the specification gives a package one kind.\<close>
  "prj_is_kind pkg k = matches (kind pkg) k"

definition prj_has_flag :: "pkg_config \<Rightarrow> string \<Rightarrow> bool" where
  \<comment> \<open>Modelled from the spec: \<^verbatim>\<open>prj_has_flag\<close> tests a named boolean flag of the
      selected configuration.\<close>
  "prj_has_flag cfg f = (f \<in> set (flags cfg))"

definition endsWith :: "string \<Rightarrow> string \<Rightarrow> bool" where
  \<comment> \<open>Modelled from the spec: \<^verbatim>\<open>endsWith\<close> tests whether the name ends in the given
      extension.\<close>
  "endsWith name e =
     (length e \<le> length name \<and> drop (length name - length e) name = e)"

definition is_cpp :: "externals \<Rightarrow> string \<Rightarrow> bool" where
  \<comment> \<open>Modelled from the spec: \<^verbatim>\<open>is_cpp\<close> holds when the extension of the file maps to a
      compilable type (C, C++, assembly, netwide assembler); the table of these
      extensions is the parameter \<^const>\<open>cpp_ext\<close>.\<close>
  "is_cpp x name =
     (case path_getextension x name of
        None \<Rightarrow> False
      | Some e \<Rightarrow> e \<in> set (cpp_ext x))"

fun find_package_from :: "package list \<Rightarrow> string \<Rightarrow> nat \<Rightarrow> nat option" where
  "find_package_from [] name i = None"
| "find_package_from (p # ps) name i =
     (if matches name (pkgname p) then Some i else find_package_from ps name (Suc i))"

definition prj_find_package :: "project \<Rightarrow> string \<Rightarrow> nat option" where
  \<comment> \<open>Modelled from the spec: \<^verbatim>\<open>prj_find_package\<close> returns the index of the first
      package of the project with the given name, or a negative number (here
      \<^const>\<open>None\<close>) when the name is no sibling package.\<close>
  "prj_find_package prj name = find_package_from (packages prj) name 0"

definition prj_get_language_for :: "project \<Rightarrow> nat \<Rightarrow> string" where
  "prj_get_language_for prj i = language (packages prj ! i)"

definition prj_get_kind_for :: "project \<Rightarrow> nat \<Rightarrow> string" where
  \<comment> \<open>Modelled from the spec: \<^verbatim>\<open>prj_get_config_for(i)->kind\<close>, the kind of sibling
      package \<open>i\<close>.\<close>
  "prj_get_kind_for prj i = kind (packages prj ! i)"

definition prj_get_target_for :: "project \<Rightarrow> nat \<Rightarrow> nat \<Rightarrow> string" where
  \<comment> \<open>Modelled from the spec: \<^verbatim>\<open>prj_get_target_for(i)\<close>, the configured target path of
      sibling package \<open>i\<close> in the selected configuration \<open>c\<close>.\<close>
  "prj_get_target_for prj c i = target (configs (packages prj ! i) c)"

subsection \<open>The list printer\<close>

text \<open>
  A callback of \<^verbatim>\<open>print_list\<close> returns a string or \<^verbatim>\<open>NULL\<close>; one of them
  (\<^verbatim>\<open>listRcTargets\<close>) prints by itself instead. So a callback is modelled by the
  pair of the text it prints and the value it returns.
\<close>

type_synonym callback = "string \<Rightarrow> string \<times> string option"

definition quiet :: "(string \<Rightarrow> string option) \<Rightarrow> callback" where
  "quiet f name = ([], f name)"

fun print_list_from :: "nat \<Rightarrow> string list \<Rightarrow> string \<Rightarrow> string \<Rightarrow> string \<Rightarrow>
    callback option \<Rightarrow> string" where
  "print_list_from i [] prefix postfix infx func = []"
| "print_list_from i (item # list) prefix postfix infx func =
     (case (case func of None \<Rightarrow> ([], Some item) | Some f \<Rightarrow> f item) of
        (printed, None) \<Rightarrow> printed @ print_list_from i list prefix postfix infx func
      | (printed, Some v) \<Rightarrow>
          printed @ (if i > 0 then infx else []) @ prefix @ v @ postfix
            @ print_list_from (Suc i) list prefix postfix infx func)"

definition print_list :: "string list \<Rightarrow> string \<Rightarrow> string \<Rightarrow> string \<Rightarrow>
    callback option \<Rightarrow> string" where
  \<comment> \<open>Modelled from the spec: \<^verbatim>\<open>print_list\<close> (not in the source at hand) walks the list,
      skips an entry for which the callback returns \<^verbatim>\<open>NULL\<close>, and prints every other
      value between the prefix and the postfix, the infix between two printed
      values. A \<^verbatim>\<open>NULL\<close> callback prints the entries themselves. A value is
      printed as it is.\<close>
  "print_list list prefix postfix infx func = print_list_from 0 list prefix postfix infx func"

subsection \<open>The callbacks\<close>

text \<open>
  The C string literals are transcribed byte for byte. The doubled percent signs in
  the literals of \<^verbatim>\<open>listCppTargets\<close> stay doubled: \<^verbatim>\<open>strcat\<close> does not interpret
  them, and \<^const>\<open>print_list\<close> prints a value as it is.
\<close>

definition filterLinks :: "project \<Rightarrow> nat \<Rightarrow> string \<Rightarrow> string option" where
  "filterLinks prj c name =
     (case prj_find_package prj name of
        Some i \<Rightarrow>
          (let lang = prj_get_language_for prj i;
               knd = prj_get_kind_for prj i
           in if matches knd ''cxxtestgen'' then None
              else if matches lang ''c++'' \<or> matches lang ''c''
              then Some (prj_get_target_for prj c i)
              else None)
      | None \<Rightarrow> Some (''-l'' @ name))"

definition listCppSources :: "externals \<Rightarrow> string \<Rightarrow> string option" where
  "listCppSources x name =
     (if is_cpp x name then Some (path_getbasename x name @ ''.o'') else None)"

definition listCxxTestSources :: "externals \<Rightarrow> string \<Rightarrow> string option" where
  "listCxxTestSources x name =
     (if endsWith name ''.h'' then Some (path_swapextension x name ''.h'' ''.cpp'') else None)"

definition listRcSources :: "externals \<Rightarrow> string \<Rightarrow> string option" where
  "listRcSources x name =
     (let ext = path_getextension x name
      in if matches_null ext ''.rc'' then Some (path_getbasename x name @ ''.res'') else None)"

definition listCppTargets :: "externals \<Rightarrow> platform \<Rightarrow> package \<Rightarrow> string \<Rightarrow> string option" where
  "listCppTargets x pf pkg name =
     (let ext = path_getextension x name;
          basename = path_getbasename x name
      in if is_cpp x name then
           Some (''$(OBJDIR)/'' @ basename @ ''.o: '' @ name @ ''\<newline>''
             @ tab @ ''-''
             @ (if \<not> g_verbose pf then ''@'' else [])
             @ ''$(CMD_MKOBJDIR)\<newline>''
             @ (if \<not> g_verbose pf then tab @ ''@echo $(notdir $<)\<newline>'' else [])
             @ tab
             @ (if \<not> g_verbose pf then ''@'' else [])
             @ (if matches_null (g_cc pf) ''dmc'' then
                  (if matches_null ext ''.c'' then ''dmc $(CFLAGS) -o $@ -c $<\<newline>''
                   else if \<not> matches_null ext ''.s''
                   then ''dmc -cpp -Ae -Ar -mn $(CXXFLAGS) -o $@ -c $<\<newline>''
                   else [])
                else
                  (if matches_null ext ''.s''
                   then ''$(CC) -x assembler-with-cpp $(CPPFLAGS) -o $@ -c $<\<newline>''
                   else if matches_null ext ''.c''
                   then ''$(CC) $(CFLAGS) -MF $(OBJDIR)/$(<F:%%.c=%%.d) -o $@ -c $<\<newline>''
                   else if matches_null ext ''.asm'' then
                     (let input_dir = path_translate x (path_getdir x name) @ ''/'';
                          opts = (if \<not> os_is pf ''windows'' then ''-dDONT_USE_UNDERLINE=1 ''
                                  else [])
                      in ''nasm '' @ opts @ '' -i'' @ input_dir @ '' -f elf -o $@ $<\<newline>''
                         @ tab
                         @ (if \<not> g_verbose pf then ''@'' else [])
                         @ ''nasm '' @ opts @ '' -i'' @ input_dir
                         @ '' -M -o $@ $< >$(OBJDIR)/$(<F:%%.asm=%.d)\<newline>'')
                   else ''$(CXX) $(CXXFLAGS) -MF $(OBJDIR)/'' @ basename
                          @ ''.d -o $@ -c $<\<newline>'')))
         else if prj_is_kind pkg ''cxxtestgen'' then
           (let target_name = path_swapextension x name ''.h'' ''.cpp''
            in Some (target_name @ '': '' @ name @ ''\<newline>''
                 @ (if g_verbose pf then [] else tab @ ''@echo $(notdir $<)\<newline>'')
                 @ tab @ (if g_verbose pf then [] else ''@'')
                 @ cxxtestpath pkg @ '' --part '' @ cxxtest_options pkg
                 @ '' -o '' @ target_name @ '' '' @ name @ ''\<newline>''))
         else None)"

definition listRcTargets :: "externals \<Rightarrow> platform \<Rightarrow> callback" where
  "listRcTargets x pf name =
     (let prefix = (if g_verbose pf then [] else ''@'')
      in if matches_null (path_getextension x name) ''.rc'' then
           (let base = path_getbasename x name
            in (''$(OBJDIR)/'' @ base @ ''.res: '' @ name @ ''\<newline>''
                @ tab @ ''-'' @ prefix @ ''$(CMD_MKOBJDIR)\<newline>''
                @ (if \<not> g_verbose pf then tab @ ''@echo $(notdir $<)\<newline>'' else [])
                @ tab @ prefix @ ''windres $< -O coff -o $@\<newline>''
                @ ''\<newline>'',
                None))
         else ([], None))"

definition listLinkerDeps :: "project \<Rightarrow> nat \<Rightarrow> string \<Rightarrow> string option" where
  "listLinkerDeps prj c name =
     (case prj_find_package prj name of
        Some i \<Rightarrow>
          (let knd = prj_get_kind_for prj i
           in if knd = ''cxxtestgen'' then None else Some (prj_get_target_for prj c i))
      | None \<Rightarrow> None)"

subsection \<open>The blocks of \<^verbatim>\<open>gnu_cpp\<close>\<close>

text \<open>
  Each definition below is the text that a run of consecutive statements of
  \<^verbatim>\<open>gnu_cpp\<close> prints: a call of \<^verbatim>\<open>io_print\<close> is its formatted text, a guarded call is
  a conditional that prints nothing otherwise, and the statements are joined in
  source order. A definition that reads the selected configuration takes the cursor
  \<open>c\<close>.
\<close>

definition gnu_header :: "package \<Rightarrow> string" where
  "gnu_header pkg =
     ''# '' @ (if prj_is_lang pkg ''c++'' then ''C++'' else ''C'') @ '' ''
     @ (if prj_is_kind pkg ''exe'' then ''Console Executable''
        else if prj_is_kind pkg ''winexe'' then ''Windowed Executable''
        else if prj_is_kind pkg ''dll'' then ''Shared Library''
        else if prj_is_kind pkg ''cxxtestgen'' then ''CxxTest Generator''
        else if prj_is_kind pkg ''lib'' then ''Static Library''
        else if prj_is_kind pkg ''run'' then ''Run Target''
        else [])
     @ '' Makefile autogenerated by premake\<newline>''
     @ ''# Don't edit this file! Instead edit `premake.lua` then rerun `make`\<newline>\<newline>''"

definition default_config :: "package \<Rightarrow> nat \<Rightarrow> string" where
  "default_config pkg c =
     ''ifndef CONFIG\<newline>''
     @ ''  CONFIG='' @ cfgname (configs pkg c) @ ''\<newline>''
     @ ''endif\<newline>\<newline>''"

definition config_guard :: "package \<Rightarrow> nat \<Rightarrow> string" where
  "config_guard pkg c = ''ifeq ($(CONFIG),'' @ cfgname (configs pkg c) @ '')\<newline>''"

definition config_dirs :: "package \<Rightarrow> nat \<Rightarrow> string" where
  "config_dirs pkg c =
     ''  BINDIR := '' @ bindir (configs pkg c) @ ''\<newline>''
     @ ''  LIBDIR := '' @ libdir (configs pkg c) @ ''\<newline>''
     @ ''  OBJDIR := '' @ objdir (configs pkg c) @ ''\<newline>''
     @ ''  OUTDIR := '' @ outdir (configs pkg c) @ ''\<newline>''"

definition cppflags :: "platform \<Rightarrow> package \<Rightarrow> nat \<Rightarrow> string" where
  "cppflags pf pkg c =
     ''  CPPFLAGS :=''
     @ (if \<not> matches_null (g_cc pf) ''dmc'' then '' -MD'' else [])
     @ print_list (cfgdefines (configs pkg c)) ('' -D '' @ dq) dq [] None
     @ print_list (incpaths (configs pkg c)) ('' -I '' @ dq) dq [] None
     @ ''\<newline>''"

text \<open>
  The three optimisation statements of the C flags (source lines 97 to 102), as the
  list of the tokens they print.
\<close>

definition optimize_tokens :: "pkg_config \<Rightarrow> string list" where
  "optimize_tokens cfg =
     (if prj_has_flag cfg ''optimize-size'' then ['' -Os''] else [])
     @ (if prj_has_flag cfg ''optimize-speed'' then ['' -O3''] else [])
     @ (if prj_has_flag cfg ''optimize'' \<and> \<not> prj_has_flag cfg ''optimize-size''
           \<and> \<not> prj_has_flag cfg ''optimize-speed''
        then ['' -O2''] else [])"

definition cflags :: "platform \<Rightarrow> package \<Rightarrow> nat \<Rightarrow> string" where
  "cflags pf pkg c =
     ''  CFLAGS += $(CPPFLAGS)''
     @ (if prj_is_kind pkg ''dll'' \<and> \<not> os_is pf ''windows'' then '' -fPIC'' else [])
     @ (if \<not> prj_has_flag (configs pkg c) ''no-symbols'' then '' -g'' else [])
     @ concat (optimize_tokens (configs pkg c))
     @ (if prj_has_flag (configs pkg c) ''extra-warnings'' then '' -Wall'' else [])
     @ (if prj_has_flag (configs pkg c) ''fatal-warnings'' then '' -Werror'' else [])
     @ (if prj_has_flag (configs pkg c) ''no-frame-pointer'' then '' -fomit-frame-pointer''
        else [])
     @ print_list (buildoptions (configs pkg c)) '' '' [] [] None
     @ ''\<newline>''"

definition cxxflags :: "package \<Rightarrow> nat \<Rightarrow> string" where
  "cxxflags pkg c =
     ''  CXXFLAGS := $(CFLAGS)''
     @ (if prj_has_flag (configs pkg c) ''no-exceptions'' then '' --no-exceptions'' else [])
     @ (if prj_has_flag (configs pkg c) ''no-rtti'' then '' --no-rtti'' else [])
     @ ''\<newline>''"

definition ldflags :: "platform \<Rightarrow> project \<Rightarrow> package \<Rightarrow> nat \<Rightarrow> string" where
  "ldflags pf prj pkg c =
     ''  LDFLAGS += -L$(BINDIR) -L$(LIBDIR)''
     @ (if prj_is_kind pkg ''dll'' \<and> (g_cc pf = None \<or> matches_null (g_cc pf) ''gcc'')
        then '' -shared'' else [])
     @ (if prj_has_flag (configs pkg c) ''no-symbols'' then '' -s'' else [])
     @ (if os_is pf ''macosx'' \<and> prj_has_flag (configs pkg c) ''dylib''
        then '' -dynamiclib -flat_namespace'' else [])
     @ (if \<not> os_is pf ''macosx'' then '' -Xlinker --start-group'' else [])
     @ print_list (linkoptions (configs pkg c)) '' '' [] [] None
     @ print_list (libpaths (configs pkg c)) ('' -L'' @ dq) dq [] None
     @ print_list (links pkg) '' '' [] [] (Some (quiet (filterLinks prj c)))
     @ (if \<not> os_is pf ''macosx'' then '' -Xlinker --end-group'' else [])
     @ ''\<newline>''"

definition lddeps :: "project \<Rightarrow> package \<Rightarrow> nat \<Rightarrow> string" where
  "lddeps prj pkg c =
     ''  LDDEPS :=''
     @ print_list (links pkg) '' '' [] [] (Some (quiet (listLinkerDeps prj c)))
     @ ''\<newline>''"

definition target_name :: "externals \<Rightarrow> platform \<Rightarrow> package \<Rightarrow> nat \<Rightarrow> string" where
  "target_name x pf pkg c =
     (if prj_is_kind pkg ''cxxtestgen'' then ''  TARGET := $(OBJECTS)\<newline>''
      else ''  TARGET := '' @ path_getname x (target (configs pkg c)) @ ''\<newline>'')
     @ (if os_is pf ''macosx'' \<and> prj_is_kind pkg ''winexe''
        then ''  MACAPP := '' @ path_getname x (target (configs pkg c))
               @ ''.app/Contents\<newline>''
        else [])"

text \<open>The build command (source lines 157 to 166): the text after \<^verbatim>\<open>BLDCMD = \<close>.\<close>

definition build_command :: "package \<Rightarrow> string" where
  "build_command pkg =
     (if prj_is_kind pkg ''lib''
      then ''ar -cr $(OUTDIR)/$(TARGET) $(OBJECTS); ranlib $(OUTDIR)/$(TARGET)''
      else if prj_is_kind pkg ''cxxtestgen'' then ''true''
      else if prj_is_kind pkg ''run''
      then ''for a in $(LDDEPS); do echo Running $$a; $$a; done''
      else ''$('' @ (if prj_is_lang pkg ''c'' then ''CC'' else ''CXX'')
             @ '') -o $(OUTDIR)/$(TARGET) $(OBJECTS) $(LDFLAGS) $(RESOURCES)'')"

definition bldcmd :: "package \<Rightarrow> string" where
  "bldcmd pkg = ''  BLDCMD = '' @ build_command pkg @ ''\<newline>''"

definition config_block :: "externals \<Rightarrow> platform \<Rightarrow> project \<Rightarrow> package \<Rightarrow> nat \<Rightarrow> string" where
  "config_block x pf prj pkg c =
     config_guard pkg c
     @ config_dirs pkg c
     @ cppflags pf pkg c
     @ cflags pf pkg c
     @ cxxflags pkg c
     @ ldflags pf prj pkg c
     @ lddeps prj pkg c
     @ target_name x pf pkg c
     @ bldcmd pkg
     @ ''endif\<newline>\<newline>''"

definition objects_list :: "externals \<Rightarrow> package \<Rightarrow> string" where
  "objects_list x pkg =
     ''OBJECTS := '' @ bsl @ ''\<newline>''
     @ (if prj_is_kind pkg ''cxxtestgen''
        then print_list (files pkg) tab ('' '' @ bsl @ ''\<newline>'') []
               (Some (quiet (listCxxTestSources x)))
        else print_list (files pkg) (tab @ ''$(OBJDIR)/'') ('' '' @ bsl @ ''\<newline>'') []
               (Some (quiet (listCppSources x))))
     @ ''\<newline>''"

definition resources_list :: "externals \<Rightarrow> platform \<Rightarrow> package \<Rightarrow> string" where
  "resources_list x pf pkg =
     (if os_is pf ''windows''
      then ''RESOURCES := '' @ bsl @ ''\<newline>''
           @ print_list (files pkg) (tab @ ''$(OBJDIR)/'') ('' '' @ bsl @ ''\<newline>'') []
               (Some (quiet (listRcSources x)))
           @ ''\<newline>''
      else [])"

definition mkdir_commands :: string where
  "mkdir_commands =
     ''CMD := $(subst '' @ bsl @ '','' @ bsl @ bsl @ '',$(ComSpec)$(COMSPEC))\<newline>''
     @ ''ifeq (,$(CMD))\<newline>''
     @ ''  CMD_MKBINDIR := mkdir -p $(BINDIR)\<newline>''
     @ ''  CMD_MKLIBDIR := mkdir -p $(LIBDIR)\<newline>''
     @ ''  CMD_MKOUTDIR := mkdir -p $(OUTDIR)\<newline>''
     @ ''  CMD_MKOBJDIR := mkdir -p $(OBJDIR)\<newline>''
     @ ''else\<newline>''
     @ ''  CMD_MKBINDIR := $(CMD) /c if not exist $(subst /,'' @ bsl @ bsl
         @ '',$(BINDIR)) mkdir $(subst /,'' @ bsl @ bsl @ '',$(BINDIR))\<newline>''
     @ ''  CMD_MKLIBDIR := $(CMD) /c if not exist $(subst /,'' @ bsl @ bsl
         @ '',$(LIBDIR)) mkdir $(subst /,'' @ bsl @ bsl @ '',$(LIBDIR))\<newline>''
     @ ''  CMD_MKOUTDIR := $(CMD) /c if not exist $(subst /,'' @ bsl @ bsl
         @ '',$(OUTDIR)) mkdir $(subst /,'' @ bsl @ bsl @ '',$(OUTDIR))\<newline>''
     @ ''  CMD_MKOBJDIR := $(CMD) /c if not exist $(subst /,'' @ bsl @ bsl
         @ '',$(OBJDIR)) mkdir $(subst /,'' @ bsl @ bsl @ '',$(OBJDIR))\<newline>''
     @ ''endif\<newline>''
     @ ''\<newline>''
     @ ''.PHONY: clean\<newline>''
     @ ''\<newline>''"

definition main_target :: "platform \<Rightarrow> package \<Rightarrow> string" where
  "main_target pf pkg =
     (let prefix = (if g_verbose pf then [] else ''@'')
      in (if os_is pf ''macosx'' \<and> prj_is_kind pkg ''winexe''
          then ''all: $(OUTDIR)/$(MACAPP)/PkgInfo $(OUTDIR)/$(MACAPP)/Info.plist ''
               @ ''$(OUTDIR)/$(MACAPP)/MacOS/$(TARGET)\<newline>\<newline>''
               @ ''$(OUTDIR)/$(MACAPP)/MacOS/$(TARGET)''
          else if prj_is_kind pkg ''cxxtestgen'' then ''all''
          else ''$(OUTDIR)/$(TARGET)'')
         @ '': $(OBJECTS) $(LDDEPS) $(RESOURCES)\<newline>''
         @ (if prj_is_kind pkg ''cxxtestgen''
            then tab @ ''@'' @ cxxtestpath pkg @ '' --root''
                 @ '' '' @ cxxtest_rootoptions pkg @ '' ''
                 @ '' -o '' @ cxxtest_rootfile pkg @ ''\<newline>\<newline>''
            else if prj_is_kind pkg ''run''
            then tab @ prefix @ ''$(BLDCMD)\<newline>\<newline>''
            else (if \<not> g_verbose pf then tab @ ''@echo Linking '' @ pkgname pkg @ ''\<newline>''
                  else [])
                 @ tab @ ''-'' @ prefix @ ''$(CMD_MKBINDIR)\<newline>''
                 @ tab @ ''-'' @ prefix @ ''$(CMD_MKLIBDIR)\<newline>''
                 @ tab @ ''-'' @ prefix @ ''$(CMD_MKOUTDIR)\<newline>''
                 @ (if os_is pf ''macosx'' \<and> prj_is_kind pkg ''winexe''
                    then tab @ ''-'' @ prefix
                         @ ''if [ ! -d $(OUTDIR)/$(MACAPP)/MacOS ]; ''
                         @ ''then mkdir -p $(OUTDIR)/$(MACAPP)/MacOS; fi\<newline>''
                    else [])
                 @ tab @ prefix @ ''$(BLDCMD)\<newline>\<newline>'')
         @ (if os_is pf ''macosx'' \<and> prj_is_kind pkg ''winexe''
            then ''$(OUTDIR)/$(MACAPP)/PkgInfo:\<newline>\<newline>''
                 @ ''$(OUTDIR)/$(MACAPP)/Info.plist:\<newline>\<newline>''
            else []))"

definition clean_target :: "platform \<Rightarrow> package \<Rightarrow> string" where
  "clean_target pf pkg =
     (let prefix = (if g_verbose pf then [] else ''@'')
      in ''clean:\<newline>''
         @ tab @ ''@echo Cleaning '' @ pkgname pkg @ ''\<newline>''
         @ (if os_is pf ''macosx'' \<and> prj_is_kind pkg ''winexe''
            then tab @ ''-'' @ prefix @ ''rm -rf $(OUTDIR)/$(TARGET).app $(OBJDIR)\<newline>''
            else if prj_is_kind pkg ''cxxtestgen''
            then tab @ ''-'' @ prefix @ ''rm -f $(OBJECTS)\<newline>''
            else tab @ ''-'' @ prefix @ ''rm -rf $(OUTDIR)/$(TARGET) $(OBJDIR)\<newline>'')
         @ ''\<newline>'')"

definition source_rules :: "externals \<Rightarrow> platform \<Rightarrow> package \<Rightarrow> string" where
  "source_rules x pf pkg =
     print_list (files pkg) [] ''\<newline>'' [] (Some (quiet (listCppTargets x pf pkg)))"

definition resource_rules :: "externals \<Rightarrow> platform \<Rightarrow> package \<Rightarrow> string" where
  "resource_rules x pf pkg =
     (if os_is pf ''windows''
      then print_list (files pkg) [] [] [] (Some (listRcTargets x pf))
      else [])"

definition dependency_include :: "package \<Rightarrow> string" where
  "dependency_include pkg =
     (if \<not> prj_is_kind pkg ''cxxtestgen'' then ''-include $(OBJECTS:%.o=%.d)\<newline>\<newline>''
      else [])"

subsection \<open>The pass\<close>

text \<open>
  One turn of the loop over the configurations: select configuration \<open>i\<close>, then print
  its block from the selected configuration.
\<close>

definition emit_config :: "externals \<Rightarrow> platform \<Rightarrow> project \<Rightarrow> package \<Rightarrow> nat \<Rightarrow> st \<Rightarrow> st" where
  "emit_config x pf prj pkg i s =
     (let s1 = prj_select_config i s
      in io_print (config_block x pf prj pkg (sel s1)) s1)"

function config_loop :: "externals \<Rightarrow> platform \<Rightarrow> project \<Rightarrow> package \<Rightarrow> nat \<Rightarrow> st \<Rightarrow> st" where
  "config_loop x pf prj pkg i s =
     (if i < numconfigs prj
      then config_loop x pf prj pkg (Suc i) (emit_config x pf prj pkg i s)
      else s)"
  by pat_completeness auto
termination
  by (relation "measure (\<lambda>(x, pf, prj, pkg, i, s). numconfigs prj - i)") auto

declare config_loop.simps [simp del]

text \<open>
  \<^verbatim>\<open>gnu_cpp\<close>. With no configuration, \<^verbatim>\<open>prj_select_config(0)\<close> selects a configuration
  that does not exist and \<^verbatim>\<open>prj_get_cfgname\<close> reads it: the pass has no defined result,
  which is \<^const>\<open>None\<close> here. Otherwise the function returns 1, here the final state.
\<close>

definition gnu_cpp :: "externals \<Rightarrow> platform \<Rightarrow> project \<Rightarrow> package \<Rightarrow> st \<Rightarrow> st option" where
  "gnu_cpp x pf prj pkg s0 =
     (if numconfigs prj = 0 then None
      else
        let s = io_print (gnu_header pkg) s0;
            s = prj_select_config 0 s;
            s = io_print (default_config pkg (sel s)) s;
            s = config_loop x pf prj pkg 0 s;
            s = io_print (objects_list x pkg) s;
            s = io_print (resources_list x pf pkg) s;
            s = io_print mkdir_commands s;
            s = io_print (main_target pf pkg) s;
            s = io_print (clean_target pf pkg) s;
            s = io_print (source_rules x pf pkg) s;
            s = io_print (resource_rules x pf pkg) s;
            s = io_print (dependency_include pkg) s
        in Some s)"

text \<open>The text that \<^verbatim>\<open>gnu_cpp\<close> prints after the loop over the configurations.\<close>

definition after_configs :: "externals \<Rightarrow> platform \<Rightarrow> package \<Rightarrow> string" where
  "after_configs x pf pkg =
     objects_list x pkg
     @ resources_list x pf pkg
     @ mkdir_commands
     @ main_target pf pkg
     @ clean_target pf pkg
     @ source_rules x pf pkg
     @ resource_rules x pf pkg
     @ dependency_include pkg"

text \<open>What one entry of a list contributes to the text that \<^const>\<open>print_list\<close> prints.\<close>

definition contribution :: "string \<Rightarrow> string \<Rightarrow> string option \<Rightarrow> string" where
  "contribution prefix postfix v = (case v of None \<Rightarrow> [] | Some t \<Rightarrow> prefix @ t @ postfix)"

text \<open>The package kinds that \<^verbatim>\<open>gnu_cpp\<close> names in the header of the makefile.\<close>

definition recognized_kinds :: "string list" where
  "recognized_kinds = [''exe'', ''winexe'', ''dll'', ''cxxtestgen'', ''lib'', ''run'']"

subsection \<open>A sample project\<close>

text \<open>
  An instance of the parameters and a small project, on which the model is evaluated.
  The theorems below hold for every instance of the parameters.
\<close>

definition sample_getname :: "string \<Rightarrow> string" where
  "sample_getname name = rev (takeWhile (\<lambda>ch. ch \<noteq> CHR ''/'') (rev name))"

definition sample_getextension :: "string \<Rightarrow> string option" where
  "sample_getextension name =
     (let n = sample_getname name
      in if CHR ''.'' \<in> set n
         then Some (CHR ''.'' # rev (takeWhile (\<lambda>ch. ch \<noteq> CHR ''.'') (rev n)))
         else None)"

definition sample_getbasename :: "string \<Rightarrow> string" where
  "sample_getbasename name =
     (let n = sample_getname name
      in if CHR ''.'' \<in> set n
         then rev (tl (dropWhile (\<lambda>ch. ch \<noteq> CHR ''.'') (rev n)))
         else n)"

definition sample_getdir :: "string \<Rightarrow> string" where
  "sample_getdir name =
     (if CHR ''/'' \<in> set name
      then rev (tl (dropWhile (\<lambda>ch. ch \<noteq> CHR ''/'') (rev name)))
      else [])"

definition sample_swapextension :: "string \<Rightarrow> string \<Rightarrow> string \<Rightarrow> string" where
  "sample_swapextension name old new =
     (if endsWith name old then take (length name - length old) name @ new else name)"

definition sample_externals :: externals where
  "sample_externals =
     \<lparr> path_getextension = sample_getextension,
       path_getbasename = sample_getbasename,
       path_getname = sample_getname,
       path_getdir = sample_getdir,
       path_translate = (\<lambda>p. p),
       path_swapextension = sample_swapextension,
       cpp_ext = [''.cc'', ''.cpp'', ''.cxx'', ''.c'', ''.s'', ''.asm''] \<rparr>"

definition debug_config :: pkg_config where
  "debug_config =
     \<lparr> cfgname = ''Debug'', bindir = ''bin'', libdir = ''lib'', objdir = ''obj/Debug'',
       outdir = ''bin'', cfgdefines = [''DEBUG''], incpaths = [''include''], flags = [],
       buildoptions = [], linkoptions = [], libpaths = [], target = ''bin/app'' \<rparr>"

definition release_config :: pkg_config where
  "release_config =
     \<lparr> cfgname = ''Release'', bindir = ''bin'', libdir = ''lib'', objdir = ''obj/Release'',
       outdir = ''bin'', cfgdefines = [''NDEBUG''], incpaths = [''include''],
       flags = [''no-symbols'', ''optimize''],
       buildoptions = [], linkoptions = [], libpaths = [], target = ''bin/app'' \<rparr>"

text \<open>A configuration that asks for both the size and the speed optimisation.\<close>

definition size_speed_config :: pkg_config where
  "size_speed_config = release_config \<lparr> flags := [''optimize-size'', ''optimize-speed''] \<rparr>"

definition app :: package where
  "app =
     \<lparr> pkgname = ''app'', language = ''c++'', kind = ''exe'',
       files = [''src/a.cpp'', ''src/b.c'', ''src/x.rc'', ''src/a.h''],
       links = [''core'', ''tests'', ''m'', ''gui''],
       configs = (\<lambda>i. if i = 0 then debug_config else release_config),
       cxxtestpath = [], cxxtest_options = [], cxxtest_rootoptions = [],
       cxxtest_rootfile = [] \<rparr>"

definition core :: package where
  "core = app \<lparr> pkgname := ''core'', language := ''c'', kind := ''lib'', links := [],
     configs := (\<lambda>i. if i = 0 then debug_config \<lparr> target := ''lib/libcore_d.a'' \<rparr>
                     else release_config \<lparr> target := ''lib/libcore.a'' \<rparr>) \<rparr>"

definition tests :: package where
  "tests = app \<lparr> pkgname := ''tests'', kind := ''cxxtestgen'', links := [] \<rparr>"

definition gui :: package where
  "gui = app \<lparr> pkgname := ''gui'', language := ''c#'', kind := ''dll'', links := [],
     configs := (\<lambda>i. debug_config \<lparr> target := ''bin/gui.dll'' \<rparr>) \<rparr>"

definition runner :: package where
  "runner = app \<lparr> pkgname := ''runner'', kind := ''run'', links := [''core''] \<rparr>"

text \<open>A package whose kind is none of the recognised ones.\<close>

definition plugin :: package where
  "plugin = app \<lparr> pkgname := ''plugin'', kind := ''plugin'' \<rparr>"

definition sample_project :: project where
  "sample_project = \<lparr> numconfigs = 2, packages = [app, core, tests, gui] \<rparr>"

definition windows_gcc :: platform where
  "windows_gcc = \<lparr> os = ''windows'', g_cc = None, g_verbose = False \<rparr>"

definition linux_gcc :: platform where
  "linux_gcc = \<lparr> os = ''linux'', g_cc = Some ''gcc'', g_verbose = True \<rparr>"

section \<open>Properties\<close>

subsection \<open>The list printer, the loop and the pass\<close>

lemma print_list_from_quiet:
  "print_list_from i xs pre post [] (Some (quiet f)) =
     concat (map (\<lambda>n. contribution pre post (f n)) xs)"
  by (induction xs arbitrary: i) (simp_all add: quiet_def contribution_def split: option.split)

lemma print_list_quiet:
  "print_list xs pre post [] (Some (quiet f)) =
     concat (map (\<lambda>n. contribution pre post (f n)) xs)"
  by (simp add: print_list_def print_list_from_quiet)

lemma print_list_from_rc:
  "print_list_from i xs pre post infx (Some (listRcTargets x pf)) =
     concat (map (\<lambda>n. fst (listRcTargets x pf n)) xs)"
  by (induction xs arbitrary: i) (simp_all add: listRcTargets_def Let_def)

lemma config_loop_out:
  "out (config_loop x pf prj pkg i s) =
     out s @ concat (map (config_block x pf prj pkg) [i..<numconfigs prj])"
proof (induction x pf prj pkg i s rule: config_loop.induct)
  case (1 x pf prj pkg i s)
  show ?case
  proof (cases "i < numconfigs prj")
    case True
    then show ?thesis
      using "1.IH" [OF True]
      by (subst config_loop.simps)
         (simp add: upt_conv_Cons emit_config_def io_print_def prj_select_config_def)
  next
    case False
    then show ?thesis by (subst config_loop.simps) simp
  qed
qed

lemma config_loop_sel:
  "sel (config_loop x pf prj pkg i s) = (if i < numconfigs prj then numconfigs prj - 1 else sel s)"
proof (induction x pf prj pkg i s rule: config_loop.induct)
  case (1 x pf prj pkg i s)
  show ?case
  proof (cases "i < numconfigs prj")
    case True
    then show ?thesis
      using "1.IH" [OF True]
      by (subst config_loop.simps)
         (auto simp add: emit_config_def io_print_def prj_select_config_def)
  next
    case False
    then show ?thesis by (subst config_loop.simps) simp
  qed
qed

lemma gnu_cpp_result:
  assumes "numconfigs prj \<noteq> 0"
  shows "\<exists>s'. gnu_cpp x pf prj pkg s = Some s'
           \<and> sel s' = numconfigs prj - 1
           \<and> out s' = out s @ gnu_header pkg @ default_config pkg 0
               @ concat (map (config_block x pf prj pkg) [0..<numconfigs prj])
               @ after_configs x pf pkg"
  using assms
  by (simp add: gnu_cpp_def Let_def io_print_def prj_select_config_def config_loop_out
      config_loop_sel after_configs_def)


lemma find_package_from_Some:
  "find_package_from ps name k = Some i \<Longrightarrow>
     \<exists>j < length ps. i = k + j \<and> pkgname (ps ! j) = name"
proof (induction ps arbitrary: k)
  case Nil
  then show ?case by simp
next
  case (Cons p ps)
  show ?case
  proof (cases "matches name (pkgname p)")
    case True
    with Cons.prems have "i = k" by simp
    with True have "0 < length (p # ps) \<and> i = k + 0 \<and> pkgname ((p # ps) ! 0) = name"
      by (simp add: matches_def)
    then show ?thesis by (rule_tac x = 0 in exI)
  next
    case False
    with Cons.prems have "find_package_from ps name (Suc k) = Some i" by simp
    from Cons.IH [OF this] obtain j
      where j: "j < length ps" "i = Suc k + j" "pkgname (ps ! j) = name" by blast
    from j have "Suc j < length (p # ps) \<and> i = k + Suc j \<and> pkgname ((p # ps) ! Suc j) = name"
      by simp
    then show ?thesis by (rule_tac x = "Suc j" in exI)
  qed
qed

lemma find_package_from_None:
  "find_package_from ps name k = None \<longleftrightarrow> name \<notin> pkgname ` set ps"
  by (induction ps arbitrary: k) (simp_all add: matches_def)

lemma prj_find_package_None:
  "prj_find_package prj name = None \<longleftrightarrow> name \<notin> pkgname ` set (packages prj)"
  by (simp add: prj_find_package_def find_package_from_None)

lemma prj_find_package_Some:
  assumes "prj_find_package prj name = Some i"
  shows "i < length (packages prj) \<and> pkgname (packages prj ! i) = name"
proof -
  from assms have "find_package_from (packages prj) name 0 = Some i"
    by (simp add: prj_find_package_def)
  from find_package_from_Some [OF this] show ?thesis by simp
qed

lemma contribution_map_filter:
  "concat (map (\<lambda>n. contribution pre post (f n)) xs) =
     concat (map (\<lambda>v. pre @ v @ post) (List.map_filter f xs))"
  by (induction xs) (simp_all add: contribution_def split: option.split)

lemma length_map_filter_cpp:
  "length (List.map_filter (listCppSources x) fs) = length (filter (is_cpp x) fs)"
  by (induction fs) (simp_all add: listCppSources_def)

subsection \<open>The optimisation tokens\<close>

text \<open>
  Claim C1, as the code has it. The size token \<^verbatim>\<open>-Os\<close> is printed exactly when
  \<^verbatim>\<open>optimize-size\<close> is set and the speed token \<^verbatim>\<open>-O3\<close> exactly when \<^verbatim>\<open>optimize-speed\<close>
  is set; the default token \<^verbatim>\<open>-O2\<close> is printed exactly when \<^verbatim>\<open>optimize\<close> is set and
  neither of the other two flags is, so size and speed take precedence over plain
  \<^verbatim>\<open>optimize\<close>. At most one of the three tokens is printed unless \<^verbatim>\<open>optimize-size\<close> and
  \<^verbatim>\<open>optimize-speed\<close> are both set.
\<close>

theorem optimize_tokens_precedence:
  "(\<not> (prj_has_flag cfg ''optimize-size'' \<and> prj_has_flag cfg ''optimize-speed'')
      \<longrightarrow> length (optimize_tokens cfg) \<le> 1)
   \<and> ('' -O2'' \<in> set (optimize_tokens cfg) \<longleftrightarrow>
        prj_has_flag cfg ''optimize'' \<and> \<not> prj_has_flag cfg ''optimize-size''
          \<and> \<not> prj_has_flag cfg ''optimize-speed'')
   \<and> ('' -Os'' \<in> set (optimize_tokens cfg) \<longleftrightarrow> prj_has_flag cfg ''optimize-size'')
   \<and> ('' -O3'' \<in> set (optimize_tokens cfg) \<longleftrightarrow> prj_has_flag cfg ''optimize-speed'')"
  by (simp add: optimize_tokens_def)

theorem optimize_tokens_precedence_witness:
  "\<not> (prj_has_flag release_config ''optimize-size'' \<and> prj_has_flag release_config ''optimize-speed'')
   \<and> length (optimize_tokens release_config) \<le> 1
   \<and> '' -O2'' \<in> set (optimize_tokens release_config)
   \<and> '' -Os'' \<notin> set (optimize_tokens release_config)
   \<and> '' -O3'' \<notin> set (optimize_tokens release_config)"
  using optimize_tokens_precedence [of release_config]
  by (simp add: prj_has_flag_def release_config_def)

text \<open>
  Claim C1 as it is stated (at most one of the three tokens in every configuration)
  fails: a configuration with both \<^verbatim>\<open>optimize-size\<close> and \<^verbatim>\<open>optimize-speed\<close> gets both
  \<^verbatim>\<open>-Os\<close> and \<^verbatim>\<open>-O3\<close> in its C flags.
\<close>

theorem optimize_tokens_counterexample:
  "optimize_tokens size_speed_config = ['' -Os'', '' -O3'']
   \<and> \<not> length (optimize_tokens size_speed_config) \<le> 1
   \<and> cflags linux_gcc (app \<lparr> configs := (\<lambda>i. size_speed_config) \<rparr>) 0
       = ''  CFLAGS += $(CPPFLAGS) -g -Os -O3\<newline>''"
  by (simp add: optimize_tokens_def prj_has_flag_def size_speed_config_def release_config_def
      cflags_def app_def linux_gcc_def prj_is_kind_def matches_def os_is_def print_list_def)

subsection \<open>The build command\<close>

text \<open>
  Claim C2, as the code has it. For a package whose kind is none of the recognised
  kinds, the block of every configuration carries the build command of the last
  branch, the call of the link driver: \<^verbatim>\<open>$(CC)\<close> when the language is \<^verbatim>\<open>c\<close>, \<^verbatim>\<open>$(CXX)\<close>
  otherwise.
\<close>

theorem unrecognized_kind_links:
  "kind pkg \<notin> set recognized_kinds \<Longrightarrow>
     build_command pkg =
       ''$('' @ (if language pkg = ''c'' then ''CC'' else ''CXX'')
         @ '') -o $(OUTDIR)/$(TARGET) $(OBJECTS) $(LDFLAGS) $(RESOURCES)''"
  by (simp add: recognized_kinds_def build_command_def prj_is_kind_def prj_is_lang_def
      matches_def)

theorem unrecognized_kind_links_witness:
  "kind plugin \<notin> set recognized_kinds
   \<and> build_command plugin = ''$(CXX) -o $(OUTDIR)/$(TARGET) $(OBJECTS) $(LDFLAGS) $(RESOURCES)''"
proof -
  have h: "kind plugin \<notin> set recognized_kinds"
    by (simp add: recognized_kinds_def plugin_def app_def)
  show ?thesis
    using h unrecognized_kind_links [OF h] by (simp add: plugin_def app_def)
qed

text \<open>
  Claim C2 as it is stated (no build command for an unrecognised kind) fails: the
  package \<^const>\<open>plugin\<close> of kind \<^verbatim>\<open>plugin\<close> gets the call of the C++ link driver.
\<close>

theorem unrecognized_kind_counterexample:
  "kind plugin \<notin> set recognized_kinds
   \<and> build_command plugin = ''$(CXX) -o $(OUTDIR)/$(TARGET) $(OBJECTS) $(LDFLAGS) $(RESOURCES)''
   \<and> build_command plugin \<noteq> []"
  by (simp add: recognized_kinds_def plugin_def app_def build_command_def prj_is_kind_def
      prj_is_lang_def matches_def)

text \<open>
  Claim C8. The build command follows the kind of the package: a static library is
  archived with \<^verbatim>\<open>ar\<close> and indexed with \<^verbatim>\<open>ranlib\<close>; a test generator gets the
  placeholder \<^verbatim>\<open>true\<close>; a run target gets a loop over \<^verbatim>\<open>$(LDDEPS)\<close> that announces and
  runs each entry; an executable, a windowed executable and a shared library get the
  call of the link driver, \<^verbatim>\<open>$(CC)\<close> for the language \<^verbatim>\<open>c\<close> and \<^verbatim>\<open>$(CXX)\<close> otherwise,
  that builds the target from the objects, the link flags and the resources. The
  command is the last line of the block of every configuration.
\<close>

theorem build_command_by_kind:
  "(kind pkg = ''lib'' \<longrightarrow>
      bldcmd pkg =
        ''  BLDCMD = ar -cr $(OUTDIR)/$(TARGET) $(OBJECTS); ranlib $(OUTDIR)/$(TARGET)\<newline>'')
   \<and> (kind pkg = ''cxxtestgen'' \<longrightarrow> bldcmd pkg = ''  BLDCMD = true\<newline>'')
   \<and> (kind pkg = ''run'' \<longrightarrow>
      bldcmd pkg = ''  BLDCMD = for a in $(LDDEPS); do echo Running $$a; $$a; done\<newline>'')
   \<and> (kind pkg = ''exe'' \<or> kind pkg = ''winexe'' \<or> kind pkg = ''dll'' \<longrightarrow>
      bldcmd pkg =
        ''  BLDCMD = $('' @ (if language pkg = ''c'' then ''CC'' else ''CXX'')
          @ '') -o $(OUTDIR)/$(TARGET) $(OBJECTS) $(LDFLAGS) $(RESOURCES)\<newline>'')
   \<and> config_block x pf prj pkg c =
       config_guard pkg c @ config_dirs pkg c @ cppflags pf pkg c @ cflags pf pkg c
       @ cxxflags pkg c @ ldflags pf prj pkg c @ lddeps prj pkg c @ target_name x pf pkg c
       @ bldcmd pkg @ ''endif\<newline>\<newline>''"
  by (simp add: bldcmd_def build_command_def prj_is_kind_def prj_is_lang_def matches_def
      config_block_def)

theorem build_command_by_kind_witness:
  "kind core = ''lib''
   \<and> bldcmd core =
       ''  BLDCMD = ar -cr $(OUTDIR)/$(TARGET) $(OBJECTS); ranlib $(OUTDIR)/$(TARGET)\<newline>''
   \<and> kind tests = ''cxxtestgen'' \<and> bldcmd tests = ''  BLDCMD = true\<newline>''
   \<and> kind runner = ''run''
   \<and> bldcmd runner = ''  BLDCMD = for a in $(LDDEPS); do echo Running $$a; $$a; done\<newline>''
   \<and> kind app = ''exe''
   \<and> bldcmd app =
       ''  BLDCMD = $(CXX) -o $(OUTDIR)/$(TARGET) $(OBJECTS) $(LDFLAGS) $(RESOURCES)\<newline>''"
  using build_command_by_kind [of core sample_externals linux_gcc sample_project 0]
    build_command_by_kind [of tests sample_externals linux_gcc sample_project 0]
    build_command_by_kind [of runner sample_externals linux_gcc sample_project 0]
    build_command_by_kind [of app sample_externals linux_gcc sample_project 0]
  by (simp add: core_def tests_def runner_def app_def)

subsection \<open>Link references\<close>

text \<open>
  Claim C3. A link reference that names a sibling package of language C or C++ and
  of a kind other than test generator resolves to the target path of the sibling,
  both as a link token and as an entry of the link-dependency list. A reference to a
  test-generator sibling resolves to nothing in either. A reference that names no
  sibling resolves to the external-library token \<^verbatim>\<open>-l<name>\<close> and to no entry of the
  link-dependency list. The \<^verbatim>\<open>LDDEPS\<close> line and the link tokens of the \<^verbatim>\<open>LDFLAGS\<close> line are
  the contributions of the link references, in their order.
\<close>

theorem link_reference_resolution:
  "(prj_find_package prj name = Some i
      \<longrightarrow> i < length (packages prj) \<and> pkgname (packages prj ! i) = name)
   \<and> (prj_find_package prj name = None \<longleftrightarrow> name \<notin> pkgname ` set (packages prj))
   \<and> (prj_find_package prj name = Some i
      \<and> (language (packages prj ! i) = ''c++'' \<or> language (packages prj ! i) = ''c'')
      \<and> kind (packages prj ! i) \<noteq> ''cxxtestgen''
    \<longrightarrow> filterLinks prj c name = Some (target (configs (packages prj ! i) c))
        \<and> listLinkerDeps prj c name = Some (target (configs (packages prj ! i) c)))
   \<and> (prj_find_package prj name = Some i \<and> kind (packages prj ! i) = ''cxxtestgen''
    \<longrightarrow> filterLinks prj c name = None \<and> listLinkerDeps prj c name = None)
   \<and> (prj_find_package prj name = None
    \<longrightarrow> filterLinks prj c name = Some (''-l'' @ name) \<and> listLinkerDeps prj c name = None)
   \<and> lddeps prj pkg c =
       ''  LDDEPS :=''
       @ concat (map (\<lambda>n. contribution '' '' [] (listLinkerDeps prj c n)) (links pkg))
       @ ''\<newline>''
   \<and> print_list (links pkg) '' '' [] [] (Some (quiet (filterLinks prj c))) =
       concat (map (\<lambda>n. contribution '' '' [] (filterLinks prj c n)) (links pkg))"
proof -
  have a: "prj_find_package prj name = Some i
      \<longrightarrow> i < length (packages prj) \<and> pkgname (packages prj ! i) = name"
    using prj_find_package_Some [of prj name i] by (rule_tac impI)
  have n: "prj_find_package prj name = None \<longleftrightarrow> name \<notin> pkgname ` set (packages prj)"
    by (rule prj_find_package_None)
  have b1: "prj_find_package prj name = Some i
      \<and> (language (packages prj ! i) = ''c++'' \<or> language (packages prj ! i) = ''c'')
      \<and> kind (packages prj ! i) \<noteq> ''cxxtestgen''
    \<longrightarrow> filterLinks prj c name = Some (target (configs (packages prj ! i) c))
        \<and> listLinkerDeps prj c name = Some (target (configs (packages prj ! i) c))"
    by (simp add: filterLinks_def listLinkerDeps_def prj_get_language_for_def
        prj_get_kind_for_def prj_get_target_for_def matches_def)
  have b2: "prj_find_package prj name = Some i \<and> kind (packages prj ! i) = ''cxxtestgen''
    \<longrightarrow> filterLinks prj c name = None \<and> listLinkerDeps prj c name = None"
    by (simp add: filterLinks_def listLinkerDeps_def prj_get_kind_for_def matches_def)
  have b3: "prj_find_package prj name = None
    \<longrightarrow> filterLinks prj c name = Some (''-l'' @ name) \<and> listLinkerDeps prj c name = None"
    by (simp add: filterLinks_def listLinkerDeps_def)
  have d: "lddeps prj pkg c =
       ''  LDDEPS :=''
       @ concat (map (\<lambda>n. contribution '' '' [] (listLinkerDeps prj c n)) (links pkg))
       @ ''\<newline>''"
    unfolding lddeps_def print_list_quiet by (rule refl)
  have p: "print_list (links pkg) '' '' [] [] (Some (quiet (filterLinks prj c))) =
       concat (map (\<lambda>n. contribution '' '' [] (filterLinks prj c n)) (links pkg))"
    by (rule print_list_quiet)
  show ?thesis
    by (rule conjI [OF a conjI [OF n conjI [OF b1 conjI [OF b2 conjI [OF b3 conjI [OF d p]]]]]])
qed

theorem link_reference_resolution_witness:
  "prj_find_package sample_project ''core'' = Some 1
   \<and> filterLinks sample_project 0 ''core'' = Some ''lib/libcore_d.a''
   \<and> listLinkerDeps sample_project 0 ''core'' = Some ''lib/libcore_d.a''
   \<and> prj_find_package sample_project ''tests'' = Some 2
   \<and> filterLinks sample_project 0 ''tests'' = None
   \<and> listLinkerDeps sample_project 0 ''tests'' = None
   \<and> prj_find_package sample_project ''m'' = None
   \<and> filterLinks sample_project 0 ''m'' = Some ''-lm''
   \<and> listLinkerDeps sample_project 0 ''m'' = None
   \<and> lddeps sample_project app 0 = ''  LDDEPS := lib/libcore_d.a bin/gui.dll\<newline>''"
  using link_reference_resolution [of sample_project "''core''" 1 0 app]
    link_reference_resolution [of sample_project "''tests''" 2 0 app]
    link_reference_resolution [of sample_project "''m''" 0 0 app]
  by (simp add: sample_project_def app_def core_def tests_def gui_def debug_config_def
      prj_find_package_def matches_def contribution_def listLinkerDeps_def
      prj_get_kind_for_def prj_get_target_for_def)

text \<open>
  Claim C10. A link reference that names a sibling package of a kind other than test
  generator resolves, for the link-dependency list, to the target path of the sibling
  whatever the language of the sibling is, and, for the link tokens, to that path only
  when the language is C or C++. The \<^verbatim>\<open>LDDEPS\<close> line is the concatenation of what the
  link references contribute, in their order, and so are the link tokens of the
  \<^verbatim>\<open>LDFLAGS\<close> line; hence a sibling of another language puts its target path into the
  link-dependency list and no token into the link flags.
\<close>

theorem sibling_of_other_language:
  assumes "prj_find_package prj name = Some i"
    and "kind (packages prj ! i) \<noteq> ''cxxtestgen''"
  shows "listLinkerDeps prj c name = Some (target (configs (packages prj ! i) c))
     \<and> filterLinks prj c name =
         (if language (packages prj ! i) = ''c++'' \<or> language (packages prj ! i) = ''c''
          then Some (target (configs (packages prj ! i) c)) else None)
     \<and> contribution '' '' [] (listLinkerDeps prj c name) =
         '' '' @ target (configs (packages prj ! i) c)
     \<and> contribution '' '' [] (filterLinks prj c name) =
         (if language (packages prj ! i) = ''c++'' \<or> language (packages prj ! i) = ''c''
          then '' '' @ target (configs (packages prj ! i) c) else [])
     \<and> lddeps prj pkg c =
         ''  LDDEPS :=''
         @ concat (map (\<lambda>n. contribution '' '' [] (listLinkerDeps prj c n)) (links pkg))
         @ ''\<newline>''
     \<and> ldflags pf prj pkg c =
         ''  LDFLAGS += -L$(BINDIR) -L$(LIBDIR)''
         @ (if prj_is_kind pkg ''dll'' \<and> (g_cc pf = None \<or> matches_null (g_cc pf) ''gcc'')
            then '' -shared'' else [])
         @ (if prj_has_flag (configs pkg c) ''no-symbols'' then '' -s'' else [])
         @ (if os_is pf ''macosx'' \<and> prj_has_flag (configs pkg c) ''dylib''
            then '' -dynamiclib -flat_namespace'' else [])
         @ (if \<not> os_is pf ''macosx'' then '' -Xlinker --start-group'' else [])
         @ print_list (linkoptions (configs pkg c)) '' '' [] [] None
         @ print_list (libpaths (configs pkg c)) ('' -L'' @ dq) dq [] None
         @ concat (map (\<lambda>n. contribution '' '' [] (filterLinks prj c n)) (links pkg))
         @ (if \<not> os_is pf ''macosx'' then '' -Xlinker --end-group'' else [])
         @ ''\<newline>''"
proof -
  have d: "listLinkerDeps prj c name = Some (target (configs (packages prj ! i) c))"
    using assms
    by (simp add: listLinkerDeps_def prj_get_kind_for_def prj_get_target_for_def)
  have f: "filterLinks prj c name =
         (if language (packages prj ! i) = ''c++'' \<or> language (packages prj ! i) = ''c''
          then Some (target (configs (packages prj ! i) c)) else None)"
    using assms
    by (simp add: filterLinks_def prj_get_language_for_def prj_get_kind_for_def
        prj_get_target_for_def matches_def)
  have cd: "contribution '' '' [] (listLinkerDeps prj c name) =
         '' '' @ target (configs (packages prj ! i) c)"
    unfolding d by (simp add: contribution_def)
  have cf: "contribution '' '' [] (filterLinks prj c name) =
         (if language (packages prj ! i) = ''c++'' \<or> language (packages prj ! i) = ''c''
          then '' '' @ target (configs (packages prj ! i) c) else [])"
    unfolding f by (simp add: contribution_def)
  have l: "lddeps prj pkg c =
         ''  LDDEPS :=''
         @ concat (map (\<lambda>n. contribution '' '' [] (listLinkerDeps prj c n)) (links pkg))
         @ ''\<newline>''"
    unfolding lddeps_def print_list_quiet by (rule refl)
  have g: "ldflags pf prj pkg c =
         ''  LDFLAGS += -L$(BINDIR) -L$(LIBDIR)''
         @ (if prj_is_kind pkg ''dll'' \<and> (g_cc pf = None \<or> matches_null (g_cc pf) ''gcc'')
            then '' -shared'' else [])
         @ (if prj_has_flag (configs pkg c) ''no-symbols'' then '' -s'' else [])
         @ (if os_is pf ''macosx'' \<and> prj_has_flag (configs pkg c) ''dylib''
            then '' -dynamiclib -flat_namespace'' else [])
         @ (if \<not> os_is pf ''macosx'' then '' -Xlinker --start-group'' else [])
         @ print_list (linkoptions (configs pkg c)) '' '' [] [] None
         @ print_list (libpaths (configs pkg c)) ('' -L'' @ dq) dq [] None
         @ concat (map (\<lambda>n. contribution '' '' [] (filterLinks prj c n)) (links pkg))
         @ (if \<not> os_is pf ''macosx'' then '' -Xlinker --end-group'' else [])
         @ ''\<newline>''"
    unfolding ldflags_def print_list_quiet by (rule refl)
  show ?thesis
    by (rule conjI [OF d conjI [OF f conjI [OF cd conjI [OF cf conjI [OF l g]]]]])
qed

theorem sibling_of_other_language_witness:
  "prj_find_package sample_project ''gui'' = Some 3
   \<and> kind (packages sample_project ! 3) \<noteq> ''cxxtestgen''
   \<and> language (packages sample_project ! 3) = ''c#''
   \<and> ''gui'' \<in> set (links app)
   \<and> listLinkerDeps sample_project 1 ''gui'' = Some ''bin/gui.dll''
   \<and> filterLinks sample_project 1 ''gui'' = None
   \<and> lddeps sample_project app 1 = ''  LDDEPS := lib/libcore.a bin/gui.dll\<newline>''
   \<and> ldflags linux_gcc sample_project app 1 =
       ''  LDFLAGS += -L$(BINDIR) -L$(LIBDIR) -s -Xlinker --start-group''
       @ '' lib/libcore.a -lm -Xlinker --end-group\<newline>''"
proof -
  have f: "prj_find_package sample_project ''gui'' = Some 3"
    by (simp add: sample_project_def app_def core_def tests_def gui_def
        prj_find_package_def matches_def)
  have k: "kind (packages sample_project ! 3) \<noteq> ''cxxtestgen''"
    by (simp add: sample_project_def app_def gui_def)
  have r: "map (\<lambda>n. contribution '' '' [] (listLinkerDeps sample_project 1 n)) (links app) =
      ['' lib/libcore.a'', [], [], '' bin/gui.dll'']"
    by (simp add: sample_project_def app_def core_def tests_def gui_def debug_config_def
        release_config_def prj_find_package_def matches_def contribution_def
        listLinkerDeps_def prj_get_kind_for_def prj_get_target_for_def)
  have t: "map (\<lambda>n. contribution '' '' [] (filterLinks sample_project 1 n)) (links app) =
      ['' lib/libcore.a'', [], '' -lm'', []]"
    by (simp add: sample_project_def app_def core_def tests_def gui_def debug_config_def
        release_config_def prj_find_package_def matches_def contribution_def
        filterLinks_def prj_get_kind_for_def prj_get_target_for_def
        prj_get_language_for_def)
  have p: "prj_is_kind app ''dll'' = False" "os_is linux_gcc ''macosx'' = False"
    "prj_has_flag (configs app 1) ''no-symbols'' = True"
    "print_list (linkoptions (configs app 1)) '' '' [] [] None = []"
    "print_list (libpaths (configs app 1)) ('' -L'' @ dq) dq [] None = []"
    by (simp_all add: prj_is_kind_def os_is_def matches_def prj_has_flag_def app_def
        linux_gcc_def release_config_def print_list_def)
  have m: "''gui'' \<in> set (links app)" "language (packages sample_project ! 3) = ''c#''"
    by (simp_all add: app_def sample_project_def gui_def)
  from sibling_of_other_language [OF f k, of 1 app linux_gcc] f k m
  show ?thesis
    unfolding r t p by (simp add: sample_project_def app_def gui_def debug_config_def)
qed

subsection \<open>The configuration blocks\<close>

text \<open>
  Claim C4. For a project with \<open>n\<close> configurations the loop of \<^verbatim>\<open>gnu_cpp\<close> prints
  exactly \<open>n\<close> blocks, the block of configuration \<open>0\<close> first and the others in the
  order of their declaration. Block \<open>i\<close> opens with the guard
  \<^verbatim>\<open>ifeq ($(CONFIG),<name>)\<close> on the name of configuration \<open>i\<close> and closes with
  \<^verbatim>\<open>endif\<close>. In the text of a pass the blocks stand between the default assignment of
  \<^verbatim>\<open>CONFIG\<close> and the object list.
\<close>

theorem configuration_blocks:
  "out (config_loop x pf prj pkg 0 s) =
     out s @ concat (map (config_block x pf prj pkg) [0..<numconfigs prj])
   \<and> length (map (config_block x pf prj pkg) [0..<numconfigs prj]) = numconfigs prj
   \<and> (\<forall>i < numconfigs prj.
        map (config_block x pf prj pkg) [0..<numconfigs prj] ! i =
          ''ifeq ($(CONFIG),'' @ cfgname (configs pkg i) @ '')\<newline>''
          @ config_dirs pkg i @ cppflags pf pkg i @ cflags pf pkg i @ cxxflags pkg i
          @ ldflags pf prj pkg i @ lddeps prj pkg i @ target_name x pf pkg i @ bldcmd pkg
          @ ''endif\<newline>\<newline>'')
   \<and> (numconfigs prj \<noteq> 0 \<longrightarrow>
        (\<exists>s'. gnu_cpp x pf prj pkg s = Some s'
           \<and> out s' = out s @ gnu_header pkg @ default_config pkg 0
               @ concat (map (config_block x pf prj pkg) [0..<numconfigs prj])
               @ after_configs x pf pkg))"
proof -
  have "numconfigs prj \<noteq> 0 \<longrightarrow>
        (\<exists>s'. gnu_cpp x pf prj pkg s = Some s'
           \<and> out s' = out s @ gnu_header pkg @ default_config pkg 0
               @ concat (map (config_block x pf prj pkg) [0..<numconfigs prj])
               @ after_configs x pf pkg)"
    using gnu_cpp_result [of prj x pf pkg s] by blast
  then show ?thesis
    by (simp add: config_loop_out config_block_def config_guard_def)
qed

theorem configuration_blocks_witness:
  "numconfigs sample_project = 2
   \<and> map (config_block sample_externals linux_gcc sample_project app) [0..<2] ! 0 =
       ''ifeq ($(CONFIG),Debug)\<newline>''
       @ config_dirs app 0 @ cppflags linux_gcc app 0 @ cflags linux_gcc app 0
       @ cxxflags app 0 @ ldflags linux_gcc sample_project app 0
       @ lddeps sample_project app 0 @ target_name sample_externals linux_gcc app 0
       @ bldcmd app @ ''endif\<newline>\<newline>''
   \<and> map (config_block sample_externals linux_gcc sample_project app) [0..<2] ! 1 =
       ''ifeq ($(CONFIG),Release)\<newline>''
       @ config_dirs app 1 @ cppflags linux_gcc app 1 @ cflags linux_gcc app 1
       @ cxxflags app 1 @ ldflags linux_gcc sample_project app 1
       @ lddeps sample_project app 1 @ target_name sample_externals linux_gcc app 1
       @ bldcmd app @ ''endif\<newline>\<newline>''
   \<and> (\<exists>s'. gnu_cpp sample_externals linux_gcc sample_project app \<lparr>sel = 5, out = []\<rparr> = Some s'
        \<and> out s' = gnu_header app @ default_config app 0
            @ concat (map (config_block sample_externals linux_gcc sample_project app) [0..<2])
            @ after_configs sample_externals linux_gcc app)"
proof -
  have n: "numconfigs sample_project = 2" by (simp add: sample_project_def)
  have c: "cfgname (configs app 0) = ''Debug''" "cfgname (configs app 1) = ''Release''"
    by (simp_all add: app_def debug_config_def release_config_def)
  note t = configuration_blocks [of sample_externals linux_gcc sample_project app
      "\<lparr>sel = 5, out = []\<rparr>"]
  from t have b: "\<forall>i < 2.
        map (config_block sample_externals linux_gcc sample_project app) [0..<2] ! i =
          ''ifeq ($(CONFIG),'' @ cfgname (configs app i) @ '')\<newline>''
          @ config_dirs app i @ cppflags linux_gcc app i @ cflags linux_gcc app i
          @ cxxflags app i @ ldflags linux_gcc sample_project app i
          @ lddeps sample_project app i @ target_name sample_externals linux_gcc app i
          @ bldcmd app @ ''endif\<newline>\<newline>''"
    unfolding n by blast
  from b have b0: "map (config_block sample_externals linux_gcc sample_project app) [0..<2] ! 0 =
          ''ifeq ($(CONFIG),'' @ cfgname (configs app 0) @ '')\<newline>''
          @ config_dirs app 0 @ cppflags linux_gcc app 0 @ cflags linux_gcc app 0
          @ cxxflags app 0 @ ldflags linux_gcc sample_project app 0
          @ lddeps sample_project app 0 @ target_name sample_externals linux_gcc app 0
          @ bldcmd app @ ''endif\<newline>\<newline>''"
    by (rule allE [where x = 0]) simp
  from b have b1: "map (config_block sample_externals linux_gcc sample_project app) [0..<2] ! 1 =
          ''ifeq ($(CONFIG),'' @ cfgname (configs app 1) @ '')\<newline>''
          @ config_dirs app 1 @ cppflags linux_gcc app 1 @ cflags linux_gcc app 1
          @ cxxflags app 1 @ ldflags linux_gcc sample_project app 1
          @ lddeps sample_project app 1 @ target_name sample_externals linux_gcc app 1
          @ bldcmd app @ ''endif\<newline>\<newline>''"
    by (rule allE [where x = 1]) simp
  from t have g: "\<exists>s'. gnu_cpp sample_externals linux_gcc sample_project app \<lparr>sel = 5, out = []\<rparr> = Some s'
        \<and> out s' = out \<lparr>sel = 5, out = []\<rparr> @ gnu_header app @ default_config app 0
            @ concat (map (config_block sample_externals linux_gcc sample_project app) [0..<2])
            @ after_configs sample_externals linux_gcc app"
    unfolding n by simp
  show ?thesis
    using n b0 b1 g unfolding c by simp
qed

text \<open>
  Claim C9. For a project with at least one configuration, \<^verbatim>\<open>gnu_cpp\<close> selects
  configuration \<open>0\<close> after the header and prints, before every guarded block, the
  assignment of the name of the first configuration to \<^verbatim>\<open>CONFIG\<close> under the guard
  \<^verbatim>\<open>ifndef CONFIG\<close>.
\<close>

theorem default_configuration:
  assumes "numconfigs prj \<noteq> 0"
  shows "sel (prj_select_config 0 (io_print (gnu_header pkg) s)) = 0
     \<and> (\<exists>s'. gnu_cpp x pf prj pkg s = Some s'
          \<and> out s' = out s @ gnu_header pkg
              @ ''ifndef CONFIG\<newline>''
              @ ''  CONFIG='' @ cfgname (configs pkg 0) @ ''\<newline>''
              @ ''endif\<newline>\<newline>''
              @ concat (map (config_block x pf prj pkg) [0..<numconfigs prj])
              @ after_configs x pf pkg)"
proof -
  from gnu_cpp_result [OF assms, of x pf pkg s] obtain s'
    where s': "gnu_cpp x pf prj pkg s = Some s'"
      "out s' = out s @ gnu_header pkg @ default_config pkg 0
         @ concat (map (config_block x pf prj pkg) [0..<numconfigs prj])
         @ after_configs x pf pkg"
    by blast
  from s' have "gnu_cpp x pf prj pkg s = Some s'
          \<and> out s' = out s @ gnu_header pkg
              @ ''ifndef CONFIG\<newline>''
              @ ''  CONFIG='' @ cfgname (configs pkg 0) @ ''\<newline>''
              @ ''endif\<newline>\<newline>''
              @ concat (map (config_block x pf prj pkg) [0..<numconfigs prj])
              @ after_configs x pf pkg"
    by (simp add: default_config_def)
  then have "\<exists>s'. gnu_cpp x pf prj pkg s = Some s'
          \<and> out s' = out s @ gnu_header pkg
              @ ''ifndef CONFIG\<newline>''
              @ ''  CONFIG='' @ cfgname (configs pkg 0) @ ''\<newline>''
              @ ''endif\<newline>\<newline>''
              @ concat (map (config_block x pf prj pkg) [0..<numconfigs prj])
              @ after_configs x pf pkg"
    by blast
  moreover have "sel (prj_select_config 0 (io_print (gnu_header pkg) s)) = 0"
    by (simp add: prj_select_config_def)
  ultimately show ?thesis by blast
qed

theorem default_configuration_witness:
  "numconfigs sample_project \<noteq> 0
   \<and> (\<exists>s'. gnu_cpp sample_externals windows_gcc sample_project app \<lparr>sel = 1, out = []\<rparr> = Some s'
        \<and> out s' = gnu_header app
            @ ''ifndef CONFIG\<newline>  CONFIG=Debug\<newline>endif\<newline>\<newline>''
            @ concat (map (config_block sample_externals windows_gcc sample_project app)
                [0..<numconfigs sample_project])
            @ after_configs sample_externals windows_gcc app)"
proof -
  have n: "numconfigs sample_project \<noteq> 0" by (simp add: sample_project_def)
  have c: "cfgname (configs app 0) = ''Debug''" by (simp add: app_def debug_config_def)
  show ?thesis
    using n default_configuration [OF n, of app "\<lparr>sel = 1, out = []\<rparr>" sample_externals windows_gcc]
    unfolding c by simp
qed

subsection \<open>Determinism\<close>

text \<open>
  Claim C5. For a fixed project, package and platform context, the text of a pass
  does not depend on the configuration that was selected when the pass began (nor
  on anything else the pass leaves behind), so two passes print the same bytes: a
  pass that begins in the state the first pass has left, on an empty output, succeeds
  and prints the text of the first pass.
\<close>

theorem emission_deterministic:
  "map_option out (gnu_cpp x pf prj pkg \<lparr>sel = c, out = []\<rparr>)
     = map_option out (gnu_cpp x pf prj pkg \<lparr>sel = c', out = []\<rparr>)
   \<and> (gnu_cpp x pf prj pkg \<lparr>sel = c, out = []\<rparr> = Some s1 \<longrightarrow>
        (\<exists>s2. gnu_cpp x pf prj pkg (s1 \<lparr>out := []\<rparr>) = Some s2 \<and> out s2 = out s1))"
proof (cases "numconfigs prj = 0")
  case True
  then show ?thesis by (simp add: gnu_cpp_def)
next
  case False
  from gnu_cpp_result [OF False, of x pf pkg "\<lparr>sel = c, out = []\<rparr>"] obtain t
    where t: "gnu_cpp x pf prj pkg \<lparr>sel = c, out = []\<rparr> = Some t"
      "out t = gnu_header pkg @ default_config pkg 0
         @ concat (map (config_block x pf prj pkg) [0..<numconfigs prj])
         @ after_configs x pf pkg"
    by auto
  from gnu_cpp_result [OF False, of x pf pkg "\<lparr>sel = c', out = []\<rparr>"] obtain t'
    where t': "gnu_cpp x pf prj pkg \<lparr>sel = c', out = []\<rparr> = Some t'"
      "out t' = gnu_header pkg @ default_config pkg 0
         @ concat (map (config_block x pf prj pkg) [0..<numconfigs prj])
         @ after_configs x pf pkg"
    by auto
  from gnu_cpp_result [OF False, of x pf pkg "t \<lparr>out := []\<rparr>"] obtain u
    where u: "gnu_cpp x pf prj pkg (t \<lparr>out := []\<rparr>) = Some u"
      "out u = gnu_header pkg @ default_config pkg 0
         @ concat (map (config_block x pf prj pkg) [0..<numconfigs prj])
         @ after_configs x pf pkg"
    by auto
  have "map_option out (gnu_cpp x pf prj pkg \<lparr>sel = c, out = []\<rparr>)
     = map_option out (gnu_cpp x pf prj pkg \<lparr>sel = c', out = []\<rparr>)"
    using t t' by simp
  moreover have "gnu_cpp x pf prj pkg \<lparr>sel = c, out = []\<rparr> = Some s1 \<longrightarrow>
        (\<exists>s2. gnu_cpp x pf prj pkg (s1 \<lparr>out := []\<rparr>) = Some s2 \<and> out s2 = out s1)"
  proof
    assume "gnu_cpp x pf prj pkg \<lparr>sel = c, out = []\<rparr> = Some s1"
    with t have "s1 = t" by simp
    with t u have "gnu_cpp x pf prj pkg (s1 \<lparr>out := []\<rparr>) = Some u \<and> out u = out s1"
      by simp
    then show "\<exists>s2. gnu_cpp x pf prj pkg (s1 \<lparr>out := []\<rparr>) = Some s2 \<and> out s2 = out s1"
      by blast
  qed
  ultimately show ?thesis by blast
qed

theorem emission_deterministic_witness:
  "\<exists>s1 s2. gnu_cpp sample_externals linux_gcc sample_project app \<lparr>sel = 0, out = []\<rparr> = Some s1
     \<and> gnu_cpp sample_externals linux_gcc sample_project app (s1 \<lparr>out := []\<rparr>) = Some s2
     \<and> sel s1 = 1 \<and> out s2 = out s1"
proof -
  have n: "numconfigs sample_project \<noteq> 0" by (simp add: sample_project_def)
  from gnu_cpp_result [OF n, of sample_externals linux_gcc app "\<lparr>sel = 0, out = []\<rparr>"]
  obtain s1 where s1: "gnu_cpp sample_externals linux_gcc sample_project app \<lparr>sel = 0, out = []\<rparr> = Some s1"
    "sel s1 = numconfigs sample_project - 1"
    by blast
  from emission_deterministic [of sample_externals linux_gcc sample_project app 0 0 s1] s1
  obtain s2 where "gnu_cpp sample_externals linux_gcc sample_project app (s1 \<lparr>out := []\<rparr>) = Some s2"
    "out s2 = out s1"
    by blast
  with s1 show ?thesis by (simp add: sample_project_def)
qed

subsection \<open>Object and resource lists\<close>

text \<open>
  Claim C6. On Windows, every source file whose extension is \<^verbatim>\<open>.rc\<close> contributes
  one entry, its base name followed by \<^verbatim>\<open>.res\<close>, to the resource list, and one rule
  that runs the resource compiler \<^verbatim>\<open>windres\<close>; every other file contributes nothing
  to either. On every other platform neither the resource list nor a resource rule
  is printed, whatever the source files are.
\<close>

theorem resource_files:
  "(os_is pf ''windows'' \<longrightarrow>
      resources_list x pf pkg =
        ''RESOURCES := '' @ bsl @ ''\<newline>''
        @ concat (map (\<lambda>n. if path_getextension x n = Some ''.rc''
                          then tab @ ''$(OBJDIR)/'' @ path_getbasename x n @ ''.res''
                               @ '' '' @ bsl @ ''\<newline>''
                          else []) (files pkg))
        @ ''\<newline>''
      \<and> resource_rules x pf pkg =
        concat (map (\<lambda>n. if path_getextension x n = Some ''.rc''
                          then ''$(OBJDIR)/'' @ path_getbasename x n @ ''.res: '' @ n
                               @ ''\<newline>''
                               @ tab @ ''-'' @ (if g_verbose pf then [] else ''@'')
                               @ ''$(CMD_MKOBJDIR)\<newline>''
                               @ (if g_verbose pf then []
                                  else tab @ ''@echo $(notdir $<)\<newline>'')
                               @ tab @ (if g_verbose pf then [] else ''@'')
                               @ ''windres $< -O coff -o $@\<newline>''
                               @ ''\<newline>''
                          else []) (files pkg))
      \<and> length (List.map_filter (listRcSources x) (files pkg)) =
          length (filter (\<lambda>n. path_getextension x n = Some ''.rc'') (files pkg)))
   \<and> (\<not> os_is pf ''windows'' \<longrightarrow> resources_list x pf pkg = [] \<and> resource_rules x pf pkg = [])"
proof -
  have a: "\<And>fs. concat (map (\<lambda>n. contribution (tab @ ''$(OBJDIR)/'') ('' '' @ bsl @ ''\<newline>'')
                 (listRcSources x n)) fs) =
        concat (map (\<lambda>n. if path_getextension x n = Some ''.rc''
                          then tab @ ''$(OBJDIR)/'' @ path_getbasename x n @ ''.res''
                               @ '' '' @ bsl @ ''\<newline>''
                          else []) fs)"
    by (rule arg_cong [where f = concat], rule map_cong)
       (simp_all add: contribution_def listRcSources_def matches_null_def)
  have b: "\<And>fs. concat (map (\<lambda>n. fst (listRcTargets x pf n)) fs) =
        concat (map (\<lambda>n. if path_getextension x n = Some ''.rc''
                          then ''$(OBJDIR)/'' @ path_getbasename x n @ ''.res: '' @ n
                               @ ''\<newline>''
                               @ tab @ ''-'' @ (if g_verbose pf then [] else ''@'')
                               @ ''$(CMD_MKOBJDIR)\<newline>''
                               @ (if g_verbose pf then []
                                  else tab @ ''@echo $(notdir $<)\<newline>'')
                               @ tab @ (if g_verbose pf then [] else ''@'')
                               @ ''windres $< -O coff -o $@\<newline>''
                               @ ''\<newline>''
                          else []) fs)"
    by (rule arg_cong [where f = concat], rule map_cong)
       (simp_all add: listRcTargets_def matches_null_def Let_def)
  have c: "\<And>fs. length (List.map_filter (listRcSources x) fs) =
          length (filter (\<lambda>n. path_getextension x n = Some ''.rc'') fs)"
    subgoal for fs
      by (induction fs)
         (simp_all add: listRcSources_def matches_null_def)
    done
  have r1: "resources_list x pf pkg =
      (if os_is pf ''windows''
       then ''RESOURCES := '' @ bsl @ ''\<newline>''
        @ concat (map (\<lambda>n. if path_getextension x n = Some ''.rc''
                          then tab @ ''$(OBJDIR)/'' @ path_getbasename x n @ ''.res''
                               @ '' '' @ bsl @ ''\<newline>''
                          else []) (files pkg))
        @ ''\<newline>''
       else [])"
    unfolding resources_list_def print_list_quiet a by (rule refl)
  have r2: "resource_rules x pf pkg =
      (if os_is pf ''windows''
       then concat (map (\<lambda>n. fst (listRcTargets x pf n)) (files pkg))
       else [])"
    unfolding resource_rules_def print_list_def print_list_from_rc by (rule refl)
  show ?thesis
    unfolding r1 r2 b c by simp
qed

theorem resource_files_witness:
  "os_is windows_gcc ''windows''
   \<and> resources_list sample_externals windows_gcc app =
       ''RESOURCES := '' @ bsl @ ''\<newline>'' @ tab @ ''$(OBJDIR)/x.res '' @ bsl
       @ ''\<newline>\<newline>''
   \<and> resource_rules sample_externals windows_gcc app =
       ''$(OBJDIR)/x.res: src/x.rc\<newline>'' @ tab @ ''-@$(CMD_MKOBJDIR)\<newline>''
       @ tab @ ''@echo $(notdir $<)\<newline>'' @ tab
       @ ''@windres $< -O coff -o $@\<newline>\<newline>''
   \<and> \<not> os_is linux_gcc ''windows''
   \<and> resources_list sample_externals linux_gcc app = []
   \<and> resource_rules sample_externals linux_gcc app = []"
  using resource_files [where pf = windows_gcc and x = sample_externals and pkg = app]
    resource_files [where pf = linux_gcc and x = sample_externals and pkg = app]
  by (simp add: os_is_def matches_def windows_gcc_def linux_gcc_def app_def
      sample_externals_def sample_getextension_def sample_getname_def
      sample_getbasename_def Let_def)

text \<open>
  Claim C7. For a package that is no test generator, the object list has one entry
  for each source file that \<^const>\<open>is_cpp\<close> accepts, that is, whose extension is in the
  table of the compilable types; a file with another extension (a header, an
  unrecognised one) or with none has no entry.
\<close>

theorem object_list_entries:
  "kind pkg \<noteq> ''cxxtestgen'' \<Longrightarrow>
     objects_list x pkg =
       ''OBJECTS := '' @ bsl @ ''\<newline>''
       @ concat (map (\<lambda>v. tab @ ''$(OBJDIR)/'' @ v @ '' '' @ bsl @ ''\<newline>'')
           (List.map_filter (listCppSources x) (files pkg)))
       @ ''\<newline>''
     \<and> length (List.map_filter (listCppSources x) (files pkg))
         = length (filter (is_cpp x) (files pkg))
     \<and> (\<forall>n. is_cpp x n \<longleftrightarrow> (\<exists>e. path_getextension x n = Some e \<and> e \<in> set (cpp_ext x)))
     \<and> (\<forall>n. \<not> is_cpp x n \<longrightarrow> listCppSources x n = None)"
proof -
  assume k: "kind pkg \<noteq> ''cxxtestgen''"
  have a: "objects_list x pkg =
       ''OBJECTS := '' @ bsl @ ''\<newline>''
       @ concat (map (\<lambda>v. tab @ ''$(OBJDIR)/'' @ v @ '' '' @ bsl @ ''\<newline>'')
           (List.map_filter (listCppSources x) (files pkg)))
       @ ''\<newline>''"
    using k
    by (simp add: objects_list_def prj_is_kind_def matches_def print_list_quiet
        contribution_map_filter)
  have b: "\<forall>n. is_cpp x n \<longleftrightarrow> (\<exists>e. path_getextension x n = Some e \<and> e \<in> set (cpp_ext x))"
    by (simp add: is_cpp_def split: option.split)
  have c: "\<forall>n. \<not> is_cpp x n \<longrightarrow> listCppSources x n = None"
    by (simp add: listCppSources_def)
  from a b c length_map_filter_cpp [of x "files pkg"] show ?thesis by blast
qed

theorem object_list_entries_witness:
  "kind app \<noteq> ''cxxtestgen''
   \<and> objects_list sample_externals app =
       ''OBJECTS := '' @ bsl @ ''\<newline>''
       @ tab @ ''$(OBJDIR)/a.o '' @ bsl @ ''\<newline>''
       @ tab @ ''$(OBJDIR)/b.o '' @ bsl @ ''\<newline>''
       @ ''\<newline>''
   \<and> length (filter (is_cpp sample_externals) (files app)) = 2
   \<and> \<not> is_cpp sample_externals ''src/a.h''
   \<and> listCppSources sample_externals ''src/a.h'' = None
   \<and> \<not> is_cpp sample_externals ''src/x.rc''
   \<and> listCppSources sample_externals ''src/x.rc'' = None"
proof -
  have k: "kind app \<noteq> ''cxxtestgen''" by (simp add: app_def)
  have e: "is_cpp sample_externals ''src/a.cpp''" "is_cpp sample_externals ''src/b.c''"
    "\<not> is_cpp sample_externals ''src/x.rc''" "\<not> is_cpp sample_externals ''src/a.h''"
    by (simp_all add: is_cpp_def sample_externals_def sample_getextension_def
        sample_getname_def Let_def)
  have f: "files app = [''src/a.cpp'', ''src/b.c'', ''src/x.rc'', ''src/a.h'']"
    by (simp add: app_def)
  have b: "path_getbasename sample_externals ''src/a.cpp'' = ''a''"
    "path_getbasename sample_externals ''src/b.c'' = ''b''"
    by (simp_all add: sample_externals_def sample_getbasename_def sample_getname_def Let_def)
  from object_list_entries [OF k, of sample_externals] k e
  show ?thesis
    unfolding f by (simp add: listCppSources_def e b)
qed

end
